theory Spec2Isabelle
  imports Complex_Main "HOL-Library.Sublist"
begin

section \<open>Strings and paths used by the build script\<close>

text \<open>
  \<open>setup.py\<close> manipulates paths with \<open>str.split\<close>, \<open>str.join\<close>, \<open>str.replace\<close> and
  \<open>os.path.dirname\<close>. They are written out here on \<open>string\<close> (a list of characters).
\<close>

text \<open>\<open>s.split(c)\<close> for a one-character separator: the pieces between the separators,
  always at least one piece.\<close>

fun split_on :: "char \<Rightarrow> string \<Rightarrow> string list" where
  "split_on c [] = [[]]"
| "split_on c (x # xs) =
     (if x = c then [] # split_on c xs
      else (case split_on c xs of
              p # ps \<Rightarrow> (x # p) # ps
            | [] \<Rightarrow> [[x]]))"

text \<open>\<open>sep.join(parts)\<close>.\<close>

fun join :: "string \<Rightarrow> string list \<Rightarrow> string" where
  "join sep [] = []"
| "join sep [p] = p"
| "join sep (p # q # ps) = p @ sep @ join sep (q # ps)"

text \<open>\<open>s.replace(c, sep)\<close> for a one-character \<open>c\<close>.\<close>

definition replace_char :: "char \<Rightarrow> string \<Rightarrow> string \<Rightarrow> string" where
  "replace_char c sep s = concat (map (\<lambda>x. if x = c then sep else [x]) s)"

text \<open>
  \<open>posixpath.dirname\<close>:
  \<^verbatim>\<open>
    i = p.rfind('/') + 1
    head = p[:i]
    if head and head != '/'*len(head):
        head = head.rstrip('/')
    return head
  \<close>
\<close>

definition rstrip_slash :: "string \<Rightarrow> string" where
  "rstrip_slash s = rev (dropWhile (\<lambda>c. c = CHR ''/'') (rev s))"

definition dirname :: "string \<Rightarrow> string" where
  "dirname p =
     (let head = rev (dropWhile (\<lambda>c. c \<noteq> CHR ''/'') (rev p))
      in if head \<noteq> [] \<and> \<not> list_all (\<lambda>c. c = CHR ''/'') head
         then rstrip_slash head else head)"

section \<open>The build manifest: \<open>ext_data\<close> and \<open>statespace_ext_data\<close>\<close>

text \<open>
  \<open>npymath_info = get_info("npymath")\<close> comes from numpy; its three entries are a
  parameter of the manifest.
\<close>

record npymath_info =
  np_include_dirs :: "string list"
  np_libraries :: "string list"
  np_library_dirs :: "string list"

text \<open>
  One value of the two dictionaries. The dictionaries are literals with a fixed set of
  keys, so an entry is a record; a key the literal does not have is \<open>None\<close>.
  A dictionary is the list of its items in the order of the literal, which is the order
  in which Python 3.7 iterates over it; older interpreters iterate in an order of their
  own, and only the order of the lists below depends on it.
\<close>

record ext_entry =
  name :: string
  filename :: "string option"
  depends :: "string list option"
  include_dirs :: "string list option"
  libraries :: "string list option"
  library_dirs :: "string list option"
  sources :: "string list option"

type_synonym ext_dict = "(string \<times> ext_entry) list"

text \<open>The shape shared by the entries of \<open>statespace_ext_data\<close> that link against npymath.\<close>

definition npy_entry :: "npymath_info \<Rightarrow> string \<Rightarrow> string option \<Rightarrow> ext_entry" where
  "npy_entry npy nm fn =
     \<lparr> name = nm, filename = fn, depends = None,
       include_dirs = Some (''statsmodels/src'' # np_include_dirs npy),
       libraries = Some (np_libraries npy),
       library_dirs = Some (np_library_dirs npy),
       sources = Some [] \<rparr>"

definition ext_data :: "npymath_info \<Rightarrow> ext_dict" where
  "ext_data npy =
     [(''_hamilton_filter'',
        \<lparr> name = ''statsmodels/tsa/regime_switching/_hamilton_filter.c'', filename = None,
          depends = Some [], include_dirs = Some [], libraries = None, library_dirs = None,
          sources = Some [] \<rparr>),
      (''_kim_smoother'',
        \<lparr> name = ''statsmodels/tsa/regime_switching/_kim_smoother.c'', filename = None,
          depends = Some [], include_dirs = Some [], libraries = None, library_dirs = None,
          sources = Some [] \<rparr>),
      (''_statespace'',
        \<lparr> name = ''statsmodels/tsa/statespace/_statespace.c'', filename = None,
          depends = Some [''statsmodels/src/capsule.h''],
          include_dirs = Some (''statsmodels/src'' # np_include_dirs npy),
          libraries = Some (np_libraries npy),
          library_dirs = Some (np_library_dirs npy),
          sources = Some [] \<rparr>)]"

definition statespace_ext_data :: "npymath_info \<Rightarrow> ext_dict" where
  "statespace_ext_data npy =
     [(''_representation'',
        npy_entry npy ''statsmodels/tsa/statespace/_representation.c'' None),
      (''_kalman_filter'',
        npy_entry npy ''statsmodels/tsa/statespace/_kalman_filter.c'' None),
      (''_kalman_filter_conventional'',
        npy_entry npy ''statsmodels/tsa/statespace/_filters/_conventional.c''
          (Some ''_conventional'')),
      (''_kalman_filter_inversions'',
        npy_entry npy ''statsmodels/tsa/statespace/_filters/_inversions.c''
          (Some ''_inversions'')),
      (''_kalman_filter_univariate'',
        npy_entry npy ''statsmodels/tsa/statespace/_filters/_univariate.c''
          (Some ''_univariate'')),
      (''_kalman_smoother'',
        npy_entry npy ''statsmodels/tsa/statespace/_kalman_smoother.c'' None),
      (''_kalman_smoother_alternative'',
        npy_entry npy ''statsmodels/tsa/statespace/_smoothers/_alternative.c''
          (Some ''_alternative'')),
      (''_kalman_smoother_classical'',
        npy_entry npy ''statsmodels/tsa/statespace/_smoothers/_classical.c''
          (Some ''_classical'')),
      (''_kalman_smoother_conventional'',
        npy_entry npy ''statsmodels/tsa/statespace/_smoothers/_conventional.c''
          (Some ''_conventional'')),
      (''_kalman_smoother_univariate'',
        npy_entry npy ''statsmodels/tsa/statespace/_smoothers/_univariate.c''
          (Some ''_univariate'')),
      (''_kalman_simulation_smoother'',
        npy_entry npy ''statsmodels/tsa/statespace/_simulation_smoother.c''
          (Some ''_simulation_smoother'')),
      (''_kalman_tools'',
        \<lparr> name = ''statsmodels/tsa/statespace/_tools.c'', filename = Some ''_tools'',
          depends = None, include_dirs = None, libraries = None, library_dirs = None,
          sources = Some [] \<rparr>)]"

section \<open>The top-level script: optional kernels, exclusion file, extensions\<close>

text \<open>
  The cython exclusion file, as its contents.
  \<^verbatim>\<open>
    def init_cython_exclusion(filename):
        with open(filename, 'w') as f:
            pass

    def append_cython_exclusion(path, filename):
        with open(filename, 'a') as f:
            f.write(path + "\n")
  \<close>
\<close>

definition init_cython_exclusion :: string where
  "init_cython_exclusion = []"

definition append_cython_exclusion :: "string \<Rightarrow> string \<Rightarrow> string" where
  "append_cython_exclusion path contents = contents @ path @ [CHR 0x0A]"

text \<open>\<open>d.update(e)\<close> on dictionaries kept as association lists in insertion order: a key
  already present keeps its place and takes the new value, a new key goes to the end.\<close>

fun dict_set :: "'k \<Rightarrow> 'v \<Rightarrow> ('k \<times> 'v) list \<Rightarrow> ('k \<times> 'v) list" where
  "dict_set k v [] = [(k, v)]"
| "dict_set k v (p # ps) = (if fst p = k then (k, v) # ps else p # dict_set k v ps)"

definition dict_update :: "('k \<times> 'v) list \<Rightarrow> ('k \<times> 'v) list \<Rightarrow> ('k \<times> 'v) list" where
  "dict_update d e = foldl (\<lambda>acc kv. dict_set (fst kv) (snd kv) acc) d e"

text \<open>
  The path written for an excluded kernel:
  \<^verbatim>\<open>
    path = '.'.join([data["name"].split('.')[0], 'pyx.in'])
    append_cython_exclusion(path.replace('/', os.path.sep), CYTHON_EXCLUSION_FILE)
  \<close>
  \<open>os.path.sep\<close> is a parameter.
\<close>

definition exclusion_path :: "string \<Rightarrow> ext_entry \<Rightarrow> string" where
  "exclusion_path sep data =
     replace_char CHR ''/'' sep
       (join ''.'' [hd (split_on CHR ''.'' (name data)), ''pyx.in''])"

text \<open>
  \<^verbatim>\<open>
    init_cython_exclusion(CYTHON_EXCLUSION_FILE)
    ...
    try:
        from scipy.linalg import cython_blas
        ext_data.update(statespace_ext_data)
    except ImportError:
        for name, data in statespace_ext_data.items():
            path = ...
            append_cython_exclusion(path.replace('/', os.path.sep), CYTHON_EXCLUSION_FILE)
  \<close>
  \<open>cython_blas\<close> says whether the import succeeds. The result is the dictionary
  \<open>ext_data\<close> after the statement and the contents of the exclusion file.
\<close>

definition select_kernels :: "bool \<Rightarrow> string \<Rightarrow> npymath_info \<Rightarrow> ext_dict \<times> string" where
  "select_kernels cython_blas sep npy =
     (if cython_blas
      then (dict_update (ext_data npy) (statespace_ext_data npy), init_cython_exclusion)
      else (ext_data npy,
            foldl (\<lambda>contents kv. append_cython_exclusion (exclusion_path sep (snd kv)) contents)
              init_cython_exclusion (statespace_ext_data npy)))"

text \<open>
  The \<open>Extension\<close> objects handed to \<open>setup(ext_modules=extensions)\<close>: the module name and
  the keyword arguments. A keyword that is not passed is the empty list, as in
  \<open>distutils.extension.Extension\<close>.
\<close>

record extension =
  ext_name :: string
  ext_sources :: "string list"
  ext_depends :: "string list"
  ext_include_dirs :: "string list"
  ext_libraries :: "string list"
  ext_library_dirs :: "string list"
  ext_define_macros :: "(string \<times> string) list"

text \<open>
  \<^verbatim>\<open>
    CYTHON_COVERAGE = bool(os.environ.get('CYTHON_COVERAGE', False))
    CYTHON_TRACE_NOGIL = str(int(CYTHON_COVERAGE))
    macros = [('CYTHON_TRACE_NOGIL', CYTHON_TRACE_NOGIL)]
  \<close>
\<close>

definition macros :: "bool \<Rightarrow> (string \<times> string) list" where
  "macros cython_coverage =
     [(''CYTHON_TRACE_NOGIL'', if cython_coverage then ''1'' else ''0'')]"

definition list_or_empty :: "'a list option \<Rightarrow> 'a list" where
  "list_or_empty v = (case v of None \<Rightarrow> [] | Some xs \<Rightarrow> xs)"

text \<open>
  The body of the last loop:
  \<^verbatim>\<open>
    for name, data in ext_data.items():
        data['sources'] = data.get('sources', []) + [data['name']]
        data['define_macros'] = macros
        destdir = ".".join(os.path.dirname(data["name"]).split("/"))
        data.pop('name')
        filename = data.pop('filename', name)
        obj = Extension('%s.%s' % (destdir, filename), **data)
        extensions.append(obj)
  \<close>
\<close>

definition destdir :: "ext_entry \<Rightarrow> string" where
  "destdir data = join ''.'' (split_on CHR ''/'' (dirname (name data)))"

definition module_filename :: "string \<Rightarrow> ext_entry \<Rightarrow> string" where
  "module_filename key data = (case filename data of None \<Rightarrow> key | Some f \<Rightarrow> f)"

definition make_extension :: "bool \<Rightarrow> string \<Rightarrow> ext_entry \<Rightarrow> extension" where
  "make_extension cython_coverage key data =
     \<lparr> ext_name = destdir data @ ''.'' @ module_filename key data,
       ext_sources = list_or_empty (sources data) @ [name data],
       ext_depends = list_or_empty (depends data),
       ext_include_dirs = list_or_empty (include_dirs data),
       ext_libraries = list_or_empty (libraries data),
       ext_library_dirs = list_or_empty (library_dirs data),
       ext_define_macros = macros cython_coverage \<rparr>"

text \<open>
  The list \<open>extensions\<close> at the end of the script. The three extensions that
  \<open>Cython.Build.cythonize\<close> returns first (\<open>kalman_loglike\<close>, \<open>linbin\<close>,
  \<open>_smoothers_lowess\<close>) are the parameter \<open>cythonized\<close>.
\<close>

definition extensions ::
  "extension list \<Rightarrow> bool \<Rightarrow> bool \<Rightarrow> string \<Rightarrow> npymath_info \<Rightarrow> extension list" where
  "extensions cythonized cython_coverage cython_blas sep npy =
     cythonized @
     map (\<lambda>kv. make_extension cython_coverage (fst kv) (snd kv))
       (fst (select_kernels cython_blas sep npy))"

definition exclusion_file :: "bool \<Rightarrow> string \<Rightarrow> npymath_info \<Rightarrow> string" where
  "exclusion_file cython_blas sep npy = snd (select_kernels cython_blas sep npy)"

text \<open>
  Queries on the manifest. \<open>declared_kernels\<close> is \<open>ext_data\<close> together with
  \<open>statespace_ext_data\<close> (their keys are distinct); \<open>kernels_under dir\<close> lists the module
  file names (\<open>data.pop('filename', name)\<close>) of the entries whose C file lies in \<open>dir\<close>.
\<close>

definition declared_kernels :: "npymath_info \<Rightarrow> ext_dict" where
  "declared_kernels npy = ext_data npy @ statespace_ext_data npy"

definition kernel_names :: "ext_dict \<Rightarrow> string list" where
  "kernel_names d = map (\<lambda>kv. module_filename (fst kv) (snd kv)) d"

definition kernels_under :: "string \<Rightarrow> ext_dict \<Rightarrow> string list" where
  "kernels_under dir d = kernel_names (filter (\<lambda>kv. dirname (name (snd kv)) = dir) d)"

text \<open>
  Modelled from the spec: the method sets of the external interface (section 6),
  \<open>filter(Representation, method: {conventional|inversion|univariate})\<close> and
  \<open>smooth(Representation, FilterOutput, method: {conventional|classical|alternative|univariate})\<close>.
  The interface itself is not part of \<open>setup.py\<close>.
\<close>

definition filter_methods :: "string list" where
  "filter_methods = [''conventional'', ''inversion'', ''univariate'']"

definition smoother_methods :: "string list" where
  "smoother_methods = [''conventional'', ''classical'', ''alternative'', ''univariate'']"

text \<open>A kernel file name belongs to a method when it is the method's name after an
  underscore, possibly with a suffix (\<open>_inversions\<close> for \<open>inversion\<close>).\<close>

definition kernel_of_method :: "string \<Rightarrow> string \<Rightarrow> bool" where
  "kernel_of_method m k = prefix (''_'' @ m) k"

section \<open>\<open>check_dependency_versions\<close>\<close>

datatype py_error = ImportError string | KeyError string | TypeError | AttributeError

subsection \<open>\<open>distutils.version.LooseVersion\<close>\<close>

text \<open>
  \<^verbatim>\<open>
    component_re = re.compile(r'(\d+ | [a-z]+ | \.)', re.VERBOSE)

    def parse (self, vstring):
        components = [x for x in self.component_re.split(vstring) if x and x != '.']
        for i, obj in enumerate(components):
            try: components[i] = int(obj)
            except ValueError: pass
        self.version = components
  \<close>
  The split keeps the separators it matched, so the components are the maximal runs of
  digits (read as integers), the maximal runs of lower-case letters and the maximal runs
  of other characters; the dots are dropped.
\<close>

datatype component = VInt nat | VStr string

datatype char_class = Digit | Lower | Dot | Other

definition is_digit :: "char \<Rightarrow> bool" where
  "is_digit c = (48 \<le> (of_char c :: nat) \<and> (of_char c :: nat) \<le> 57)"

definition is_lower :: "char \<Rightarrow> bool" where
  "is_lower c = (97 \<le> (of_char c :: nat) \<and> (of_char c :: nat) \<le> 122)"

definition char_class_of :: "char \<Rightarrow> char_class" where
  "char_class_of c =
     (if is_digit c then Digit else if is_lower c then Lower
      else if c = CHR ''.'' then Dot else Other)"

fun runs :: "string \<Rightarrow> (char_class \<times> string) list" where
  "runs [] = []"
| "runs (c # cs) =
     (case runs cs of
        [] \<Rightarrow> [(char_class_of c, [c])]
      | (k, r) # rest \<Rightarrow>
          if k = char_class_of c \<and> k \<noteq> Dot then (k, c # r) # rest
          else (char_class_of c, [c]) # (k, r) # rest)"

definition int_of_digits :: "string \<Rightarrow> nat" where
  "int_of_digits s = foldl (\<lambda>n c. 10 * n + ((of_char c :: nat) - 48)) 0 s"

definition loose_parse :: "string \<Rightarrow> component list" where
  "loose_parse vstring =
     map (\<lambda>kr. if fst kr = Digit then VInt (int_of_digits (snd kr)) else VStr (snd kr))
       (filter (\<lambda>kr. fst kr \<noteq> Dot) (runs vstring))"

text \<open>
  The comparison of two component lists is Python's list comparison: the first pair of
  unequal components decides, a proper prefix is smaller. An integer against a string
  raises \<open>TypeError\<close> in Python 3 and is smaller in Python 2; \<open>py3\<close> says which.
\<close>

fun str_less :: "string \<Rightarrow> string \<Rightarrow> bool" where
  "str_less [] [] = False"
| "str_less [] (y # ys) = True"
| "str_less (x # xs) [] = False"
| "str_less (x # xs) (y # ys) =
     (if x = y then str_less xs ys else (of_char x :: nat) < of_char y)"

fun component_less :: "bool \<Rightarrow> component \<Rightarrow> component \<Rightarrow> py_error + bool" where
  "component_less py3 (VInt m) (VInt n) = Inr (m < n)"
| "component_less py3 (VStr s) (VStr t) = Inr (str_less s t)"
| "component_less py3 (VInt m) (VStr t) = (if py3 then Inl TypeError else Inr True)"
| "component_less py3 (VStr s) (VInt n) = (if py3 then Inl TypeError else Inr False)"

fun list_less :: "bool \<Rightarrow> component list \<Rightarrow> component list \<Rightarrow> py_error + bool" where
  "list_less py3 [] [] = Inr False"
| "list_less py3 [] (y # ys) = Inr True"
| "list_less py3 (x # xs) [] = Inr False"
| "list_less py3 (x # xs) (y # ys) =
     (if x = y then list_less py3 xs ys else component_less py3 x y)"

text \<open>
  \<open>LooseVersion(v) >= w\<close> for a string \<open>w\<close>.
  \<^verbatim>\<open>
    def __init__ (self, vstring=None):
        if vstring:
            self.parse(vstring)

    def _cmp (self, other):
        if isinstance(other, str):
            other = LooseVersion(other)
        if self.version == other.version: return 0
        if self.version < other.version: return -1
        if self.version > other.version: return 1
  \<close>
  An empty version string is not parsed, so the object has no attribute \<open>version\<close>
  and the comparison raises \<open>AttributeError\<close>, whichever side is empty.
\<close>

definition loose_ge :: "bool \<Rightarrow> string \<Rightarrow> string \<Rightarrow> py_error + bool" where
  "loose_ge py3 v w =
     (if v = [] \<or> w = [] then Inl AttributeError
      else if loose_parse v = loose_parse w then Inr True
      else (case list_less py3 (loose_parse v) (loose_parse w) of
              Inl e \<Rightarrow> Inl e
            | Inr lt \<Rightarrow> Inr (\<not> lt)))"

text \<open>\<open>re.match("\d*\.\d*\.\d*", s)\<close>: the matched prefix, or \<open>None\<close>.\<close>

definition match_version_prefix :: "string \<Rightarrow> string option" where
  "match_version_prefix s =
     (let d1 = takeWhile is_digit s in
      case dropWhile is_digit s of
        [] \<Rightarrow> None
      | c1 # r1 \<Rightarrow>
          if c1 \<noteq> CHR ''.'' then None
          else (let d2 = takeWhile is_digit r1 in
                case dropWhile is_digit r1 of
                  [] \<Rightarrow> None
                | c2 # r2 \<Rightarrow>
                    if c2 \<noteq> CHR ''.'' then None
                    else Some (d1 @ ''.'' @ d2 @ ''.'' @ takeWhile is_digit r2)))"

subsection \<open>The installed packages and the function\<close>

text \<open>
  What the imports of the function find: a field is \<open>None\<close> when the import raises
  \<open>ImportError\<close>. For scipy, \<open>import scipy\<close> and the two names of \<open>scipy.version\<close> are
  separate; the import of \<open>version\<close> has no handler, so where it fails the field holds
  the message of the interpreter's \<open>ImportError\<close> (\<open>Inl\<close>).
\<close>

record scipy_version =
  short_version :: "string option"
  version :: "string + string"

record py_env =
  numpy_short_version :: "string option"
  scipy_version_module :: "scipy_version option"
  pandas_version :: "string option"
  patsy_version :: "string option"

type_synonym requires = "string list \<times> string list"

text \<open>\<open>LooseVersion(v) >= min_versions[key]\<close>; a missing key raises \<open>KeyError\<close>.\<close>

definition version_at_least ::
  "bool \<Rightarrow> (string \<rightharpoonup> string) \<Rightarrow> string \<Rightarrow> string \<Rightarrow> py_error + bool" where
  "version_at_least py3 min_versions key v =
     (case min_versions key of
        None \<Rightarrow> Inl (KeyError key)
      | Some m \<Rightarrow> loose_ge py3 v m)"

definition version_message :: "string \<Rightarrow> string \<Rightarrow> string \<Rightarrow> string" where
  "version_message package v m = package @ '' version is '' @ v @ ''. Requires >= '' @ m"

definition min_of :: "(string \<rightharpoonup> string) \<Rightarrow> string \<Rightarrow> string" where
  "min_of min_versions key = (case min_versions key of None \<Rightarrow> [] | Some m \<Rightarrow> m)"

text \<open>
  The four \<open>try\<close> statements of the function, each on the pair
  \<open>(setup_requires, install_requires)\<close>.
  \<^verbatim>\<open>
    try:
        from numpy.version import short_version as npversion
    except ImportError:
        setup_requires.append('numpy')
        install_requires.append('numpy')
    else:
        if not (LooseVersion(npversion) >= min_versions['numpy']):
            raise ImportError("Numpy version is %s. Requires >= %s" %
                              (npversion, min_versions['numpy']))
  \<close>
\<close>

definition check_numpy ::
  "bool \<Rightarrow> (string \<rightharpoonup> string) \<Rightarrow> py_env \<Rightarrow> requires \<Rightarrow> py_error + requires" where
  "check_numpy py3 min_versions env rq =
     (case numpy_short_version env of
        None \<Rightarrow> Inr (fst rq @ [''numpy''], snd rq @ [''numpy''])
      | Some npversion \<Rightarrow>
          (case version_at_least py3 min_versions ''numpy'' npversion of
             Inl e \<Rightarrow> Inl e
           | Inr ok \<Rightarrow>
               if \<not> ok
               then Inl (ImportError
                     (version_message ''Numpy'' npversion (min_of min_versions ''numpy'')))
               else Inr rq))"

text \<open>
  \<^verbatim>\<open>
    try:
        import scipy
    except ImportError:
        install_requires.append('scipy')
    else:
        try:
            from scipy.version import short_version as spversion
        except ImportError:
            from scipy.version import version as spversion  # scipy 0.7.0
        if not (LooseVersion(spversion) >= min_versions['scipy']):
            raise ImportError("Scipy version is %s. Requires >= %s" %
                              (spversion, min_versions['scipy']))
  \<close>
  When \<open>scipy.version\<close> has neither name, the second import raises \<open>ImportError\<close>
  outside any handler, with the interpreter's message.
\<close>

definition spversion_of :: "scipy_version \<Rightarrow> string + string" where
  "spversion_of m = (case short_version m of Some v \<Rightarrow> Inr v | None \<Rightarrow> version m)"

definition check_scipy ::
  "bool \<Rightarrow> (string \<rightharpoonup> string) \<Rightarrow> py_env \<Rightarrow> requires \<Rightarrow> py_error + requires" where
  "check_scipy py3 min_versions env rq =
     (case scipy_version_module env of
        None \<Rightarrow> Inr (fst rq, snd rq @ [''scipy''])
      | Some m \<Rightarrow>
          (case spversion_of m of
             Inl msg \<Rightarrow> Inl (ImportError msg)
           | Inr spversion \<Rightarrow>
               (case version_at_least py3 min_versions ''scipy'' spversion of
                  Inl e \<Rightarrow> Inl e
                | Inr ok \<Rightarrow>
                    if \<not> ok
                    then Inl (ImportError
                          (version_message ''Scipy'' spversion (min_of min_versions ''scipy'')))
                    else Inr rq)))"

text \<open>
  \<^verbatim>\<open>
    try:
        from pandas import __version__ as pversion
    except ImportError:
        install_requires.append('pandas')
    else:
        if not (LooseVersion(pversion) >= min_versions['pandas']):
            ImportError("Pandas version is %s. Requires >= %s" %
                        (pversion, min_versions['pandas']))
  \<close>
  The exception is built and dropped: there is no \<open>raise\<close>.
\<close>

definition check_pandas ::
  "bool \<Rightarrow> (string \<rightharpoonup> string) \<Rightarrow> py_env \<Rightarrow> requires \<Rightarrow> py_error + requires" where
  "check_pandas py3 min_versions env rq =
     (case pandas_version env of
        None \<Rightarrow> Inr (fst rq, snd rq @ [''pandas''])
      | Some pversion \<Rightarrow>
          (case version_at_least py3 min_versions ''pandas'' pversion of
             Inl e \<Rightarrow> Inl e
           | Inr ok \<Rightarrow>
               if \<not> ok
               then (let dropped = ImportError
                           (version_message ''Pandas'' pversion (min_of min_versions ''pandas''))
                     in Inr rq)
               else Inr rq))"

text \<open>
  \<^verbatim>\<open>
    try:
        from patsy import __version__ as patsy_version
    except ImportError:
        install_requires.append('patsy')
    else:
        # patsy dev looks like 0.1.0+dev
        pversion = re.match("\d*\.\d*\.\d*", patsy_version).group()
        if not (LooseVersion(pversion) >= min_versions['patsy']):
            raise ImportError("Patsy version is %s. Requires >= %s" %
                              (pversion, min_versions["patsy"]))
  \<close>
  \<open>.group()\<close> on a failed match is an \<open>AttributeError\<close>.
\<close>

definition check_patsy ::
  "bool \<Rightarrow> (string \<rightharpoonup> string) \<Rightarrow> py_env \<Rightarrow> requires \<Rightarrow> py_error + requires" where
  "check_patsy py3 min_versions env rq =
     (case patsy_version env of
        None \<Rightarrow> Inr (fst rq, snd rq @ [''patsy''])
      | Some pv \<Rightarrow>
          (case match_version_prefix pv of
             None \<Rightarrow> Inl AttributeError
           | Some pversion \<Rightarrow>
               (case version_at_least py3 min_versions ''patsy'' pversion of
                  Inl e \<Rightarrow> Inl e
                | Inr ok \<Rightarrow>
                    if \<not> ok
                    then Inl (ImportError
                          (version_message ''Patsy'' pversion (min_of min_versions ''patsy'')))
                    else Inr rq)))"

definition and_then :: "py_error + 'a \<Rightarrow> ('a \<Rightarrow> py_error + 'b) \<Rightarrow> py_error + 'b" where
  "and_then r f = (case r of Inl e \<Rightarrow> Inl e | Inr x \<Rightarrow> f x)"

text \<open>The function: \<open>Inl\<close> is the exception that leaves it, \<open>Inr\<close> the returned pair
  \<open>(setup_requires, install_requires)\<close>.\<close>

definition check_dependency_versions ::
  "bool \<Rightarrow> (string \<rightharpoonup> string) \<Rightarrow> py_env \<Rightarrow> py_error + requires" where
  "check_dependency_versions py3 min_versions env =
     and_then (check_numpy py3 min_versions env ([], []))
       (\<lambda>rq1. and_then (check_scipy py3 min_versions env rq1)
         (\<lambda>rq2. and_then (check_pandas py3 min_versions env rq2)
           (\<lambda>rq3. check_patsy py3 min_versions env rq3)))"

text \<open>
  The dictionary the script passes:
  \<^verbatim>\<open>
    min_versions = {'numpy': '1.8', 'scipy': '0.16', 'pandas': '0.18', 'patsy': '0.4'}
    if sys.version_info[0] == 3 and sys.version_info[1] >= 3:
        min_versions.update({"numpy": "1.9.0"})
  \<close>
\<close>

definition script_min_versions :: "nat \<times> nat \<Rightarrow> (string \<rightharpoonup> string)" where
  "script_min_versions version_info =
     (let d = [''numpy'' \<mapsto> ''1.8'', ''scipy'' \<mapsto> ''0.16'',
               ''pandas'' \<mapsto> ''0.18'', ''patsy'' \<mapsto> ''0.4'']
      in if fst version_info = 3 \<and> snd version_info \<ge> 3
         then d(''numpy'' \<mapsto> ''1.9.0'') else d)"

text \<open>
  The version string that the function compares for each package, when the package is
  installed, and the two outcomes of the comparison with the minimum.
\<close>

definition numpy_installed :: "py_env \<Rightarrow> string \<Rightarrow> bool" where
  "numpy_installed env v = (numpy_short_version env = Some v)"

definition scipy_installed :: "py_env \<Rightarrow> string \<Rightarrow> bool" where
  "scipy_installed env v =
     (case scipy_version_module env of None \<Rightarrow> False | Some m \<Rightarrow> spversion_of m = Inr v)"

definition pandas_installed :: "py_env \<Rightarrow> string \<Rightarrow> bool" where
  "pandas_installed env v = (pandas_version env = Some v)"

definition patsy_installed :: "py_env \<Rightarrow> string \<Rightarrow> bool" where
  "patsy_installed env v =
     (case patsy_version env of None \<Rightarrow> False | Some pv \<Rightarrow> match_version_prefix pv = Some v)"

definition adequate :: "bool \<Rightarrow> (string \<rightharpoonup> string) \<Rightarrow> string \<Rightarrow> string \<Rightarrow> bool" where
  "adequate py3 min_versions key v = (version_at_least py3 min_versions key v = Inr True)"

definition too_old :: "bool \<Rightarrow> (string \<rightharpoonup> string) \<Rightarrow> string \<Rightarrow> string \<Rightarrow> bool" where
  "too_old py3 min_versions key v = (version_at_least py3 min_versions key v = Inr False)"

text \<open>
  A \<open>try\<close> statement of the function is passed when it raises nothing: the package is
  not installed, or it is installed and its comparison with the minimum returns without
  an exception and, except for pandas, with \<open>True\<close>.
\<close>

definition numpy_passes :: "bool \<Rightarrow> (string \<rightharpoonup> string) \<Rightarrow> py_env \<Rightarrow> bool" where
  "numpy_passes py3 min_versions env =
     (case numpy_short_version env of
        None \<Rightarrow> True
      | Some v \<Rightarrow> adequate py3 min_versions ''numpy'' v)"

definition scipy_passes :: "bool \<Rightarrow> (string \<rightharpoonup> string) \<Rightarrow> py_env \<Rightarrow> bool" where
  "scipy_passes py3 min_versions env =
     (case scipy_version_module env of
        None \<Rightarrow> True
      | Some m \<Rightarrow>
          (case spversion_of m of
             Inl msg \<Rightarrow> False
           | Inr v \<Rightarrow> adequate py3 min_versions ''scipy'' v))"

definition pandas_passes :: "bool \<Rightarrow> (string \<rightharpoonup> string) \<Rightarrow> py_env \<Rightarrow> bool" where
  "pandas_passes py3 min_versions env =
     (case pandas_version env of
        None \<Rightarrow> True
      | Some v \<Rightarrow> adequate py3 min_versions ''pandas'' v \<or> too_old py3 min_versions ''pandas'' v)"

definition patsy_passes :: "bool \<Rightarrow> (string \<rightharpoonup> string) \<Rightarrow> py_env \<Rightarrow> bool" where
  "patsy_passes py3 min_versions env =
     (case patsy_version env of
        None \<Rightarrow> True
      | Some pv \<Rightarrow>
          (case match_version_prefix pv of
             None \<Rightarrow> False
           | Some v \<Rightarrow> adequate py3 min_versions ''patsy'' v))"

text \<open>
  What the docstring promises for the packages that are not installed: numpy in
  \<open>setup_requires\<close>, and each missing package in \<open>install_requires\<close>, in the order of the
  checks.
\<close>

definition missing_requires :: "py_env \<Rightarrow> requires" where
  "missing_requires env =
     ((if numpy_short_version env = None then [''numpy''] else []),
      (if numpy_short_version env = None then [''numpy''] else []) @
      (if scipy_version_module env = None then [''scipy''] else []) @
      (if pandas_version env = None then [''pandas''] else []) @
      (if patsy_version env = None then [''patsy''] else []))"

section \<open>The Kalman filter recursion with missing observations\<close>

text \<open>
  The numerical kernels that the manifest declares
  (\<open>statsmodels/tsa/statespace/_kalman_filter\<close>, \<open>_filters/*\<close>) are not among the
  sources; the recursion below follows sections 3 and 4.2 of the specification. Vectors
  are lists of reals, matrices are lists of rows.
\<close>

type_synonym vec = "real list"
type_synonym mat = "real list list"

definition dot :: "vec \<Rightarrow> vec \<Rightarrow> real" where
  "dot x y = sum_list (map (\<lambda>p. fst p * snd p) (zip x y))"

definition mat_vec :: "mat \<Rightarrow> vec \<Rightarrow> vec" where
  "mat_vec M x = map (\<lambda>row. dot row x) M"

definition vec_add :: "vec \<Rightarrow> vec \<Rightarrow> vec" where
  "vec_add x y = map (\<lambda>p. fst p + snd p) (zip x y)"

definition scale :: "real \<Rightarrow> vec \<Rightarrow> vec" where
  "scale c x = map (\<lambda>xi. c * xi) x"

definition mat_add :: "mat \<Rightarrow> mat \<Rightarrow> mat" where
  "mat_add A B = map (\<lambda>p. vec_add (fst p) (snd p)) (zip A B)"

definition mat_sub :: "mat \<Rightarrow> mat \<Rightarrow> mat" where
  "mat_sub A B = map (\<lambda>p. map (\<lambda>q. fst q - snd q) (zip (fst p) (snd p))) (zip A B)"

definition outer :: "vec \<Rightarrow> vec \<Rightarrow> mat" where
  "outer x y = map (\<lambda>xi. scale xi y) x"

definition mat_mul :: "mat \<Rightarrow> mat \<Rightarrow> mat" where
  "mat_mul A B = map (\<lambda>row. map (\<lambda>col. dot row col) (transpose B)) A"

text \<open>
  Modelled from the spec: one element of the observation vector of a period (section 3,
  Representation): the observed value, or \<open>None\<close> where the observation is marked
  missing, with its row of \<open>Z_t\<close>, its entry of \<open>d_t\<close> and its diagonal entry of \<open>H_t\<close>.
\<close>

record observation =
  observed :: "real option"
  design_row :: vec
  obs_intercept :: real
  obs_variance :: real

text \<open>
  Modelled from the spec: the system matrices of one period (section 3): the observation
  vector and \<open>T_t\<close>, \<open>c_t\<close>, \<open>R_t\<close>, \<open>Q_t\<close>. A time-invariant matrix is the same in
  every period.
\<close>

record period =
  observations :: "observation list"
  transition :: mat
  state_intercept :: vec
  selection :: mat
  state_cov :: mat

datatype filter_error = NonPositiveDefiniteError

text \<open>
  Modelled from the spec: the update of section 4.2 (steps 2 and 4) in the univariate
  form, the scalar updates of the observed elements one after the other:
  \<open>v = y - Z a - d\<close>, \<open>F = Z P Z' + H\<close>, \<open>a + P Z' F\<^sup>-\<^sup>1 v\<close>, and the
  standard form \<open>P - P Z' F\<^sup>-\<^sup>1 Z P\<close> of the covariance. An element marked
  missing is excluded from the update. An \<open>F\<close> that is not positive is the error of the
  failure clause. The kernel code is not among the sources.
\<close>

fun update_step :: "vec \<times> mat \<Rightarrow> observation list \<Rightarrow> filter_error + vec \<times> mat" where
  "update_step s [] = Inr s"
| "update_step s (ob # obs) =
     (case observed ob of
        None \<Rightarrow> update_step s obs
      | Some y \<Rightarrow>
          (let a = fst s; P = snd s;
               v = y - dot (design_row ob) a - obs_intercept ob;
               PZ = mat_vec P (design_row ob);
               F = dot (design_row ob) PZ + obs_variance ob
           in if F \<le> 0 then Inl NonPositiveDefiniteError
              else update_step
                     (vec_add a (scale (v / F) PZ),
                      mat_sub P (outer (scale (1 / F) PZ)
                                   (mat_vec (transpose P) (design_row ob))))
                     obs))"

text \<open>
  Modelled from the spec: the prediction of section 4.2 (step 1),
  \<open>a = T a + c\<close> and \<open>P = T P T' + R Q R'\<close>, from the filtered moments of the period
  before. The kernel code is not among the sources.
\<close>

definition predict :: "period \<Rightarrow> vec \<times> mat \<Rightarrow> vec \<times> mat" where
  "predict p s =
     (vec_add (mat_vec (transition p) (fst s)) (state_intercept p),
      mat_add (mat_mul (mat_mul (transition p) (snd s)) (transpose (transition p)))
              (mat_mul (mat_mul (selection p) (state_cov p)) (transpose (selection p))))"

text \<open>
  Modelled from the spec: the moments of FilterOutput (section 3) that the recursion
  carries from period to period: the predicted and the filtered state and covariance.
\<close>

record filter_output =
  predicted_state :: vec
  predicted_cov :: mat
  filtered_state :: vec
  filtered_cov :: mat

text \<open>
  Modelled from the spec: the forward recursion of section 4.2 from the predicted
  moments of the first period (\<open>a1\<close>, \<open>P1\<close>): update, record, predict the next period.
  The kernel code is not among the sources.
\<close>

fun kalman_filter :: "vec \<times> mat \<Rightarrow> period list \<Rightarrow> filter_error + filter_output list" where
  "kalman_filter s [] = Inr []"
| "kalman_filter s (p # ps) =
     (case update_step s (observations p) of
        Inl e \<Rightarrow> Inl e
      | Inr s' \<Rightarrow>
          (case kalman_filter (predict p s') ps of
             Inl e \<Rightarrow> Inl e
           | Inr outs \<Rightarrow>
               Inr (\<lparr> predicted_state = fst s, predicted_cov = snd s,
                      filtered_state = fst s', filtered_cov = snd s' \<rparr> # outs)))"

text \<open>
  Modelled from the spec: the local-level model of section 8
  (\<open>T=1, R=1, Z=1, Q=\<sigma>_eta\<^sup>2, H=\<sigma>_eps\<^sup>2\<close>) for one period with the observation \<open>y\<close>.
\<close>

definition local_level :: "real \<Rightarrow> real \<Rightarrow> real option \<Rightarrow> period" where
  "local_level q h y =
     \<lparr> observations =
         [\<lparr> observed = y, design_row = [1], obs_intercept = 0, obs_variance = h \<rparr>],
       transition = [[1]], state_intercept = [0], selection = [[1]], state_cov = [[q]] \<rparr>"

definition all_missing :: "period \<Rightarrow> bool" where
  "all_missing p = list_all (\<lambda>ob. observed ob = None) (observations p)"

section \<open>The kernels of the manifest\<close>

lemma filters_dir:
  "kernels_under ''statsmodels/tsa/statespace/_filters'' (declared_kernels npy) =
     [''_conventional'', ''_inversions'', ''_univariate'']"
  by (simp add: kernels_under_def kernel_names_def declared_kernels_def ext_data_def
      statespace_ext_data_def npy_entry_def dirname_def rstrip_slash_def module_filename_def)

lemma smoothers_dir:
  "kernels_under ''statsmodels/tsa/statespace/_smoothers'' (declared_kernels npy) =
     [''_alternative'', ''_classical'', ''_conventional'', ''_univariate'']"
  by (simp add: kernels_under_def kernel_names_def declared_kernels_def ext_data_def
      statespace_ext_data_def npy_entry_def dirname_def rstrip_slash_def module_filename_def)

text \<open>
  C1. The manifest defines exactly three Kalman-filter method kernels, \<open>_conventional\<close>,
  \<open>_inversions\<close> and \<open>_univariate\<close>, under \<open>statsmodels/tsa/statespace/_filters/\<close>, and
  they match the filter methods conventional, inversion and univariate one for one: each
  method has exactly one kernel, and each kernel exactly one method.
\<close>

theorem filter_kernels_match_filter_methods:
  "kernels_under ''statsmodels/tsa/statespace/_filters'' (declared_kernels npy) =
     [''_conventional'', ''_inversions'', ''_univariate'']
   \<and> map (\<lambda>m. filter (kernel_of_method m)
              (kernels_under ''statsmodels/tsa/statespace/_filters'' (declared_kernels npy)))
        filter_methods =
     [[''_conventional''], [''_inversions''], [''_univariate'']]
   \<and> map (\<lambda>k. filter (\<lambda>m. kernel_of_method m k) filter_methods)
        (kernels_under ''statsmodels/tsa/statespace/_filters'' (declared_kernels npy)) =
     [[''conventional''], [''inversion''], [''univariate'']]"
  unfolding filters_dir by (simp add: kernel_of_method_def filter_methods_def)

text \<open>
  C2. The manifest defines exactly four Kalman-smoother method kernels, \<open>_alternative\<close>,
  \<open>_classical\<close>, \<open>_conventional\<close> and \<open>_univariate\<close>, under
  \<open>statsmodels/tsa/statespace/_smoothers/\<close>, and they match the smoother methods
  conventional, classical, alternative and univariate one for one.
\<close>

theorem smoother_kernels_match_smoother_methods:
  "kernels_under ''statsmodels/tsa/statespace/_smoothers'' (declared_kernels npy) =
     [''_alternative'', ''_classical'', ''_conventional'', ''_univariate'']
   \<and> map (\<lambda>m. filter (kernel_of_method m)
              (kernels_under ''statsmodels/tsa/statespace/_smoothers'' (declared_kernels npy)))
        smoother_methods =
     [[''_conventional''], [''_classical''], [''_alternative''], [''_univariate'']]
   \<and> map (\<lambda>k. filter (\<lambda>m. kernel_of_method m k) smoother_methods)
        (kernels_under ''statsmodels/tsa/statespace/_smoothers'' (declared_kernels npy)) =
     [[''alternative''], [''classical''], [''conventional''], [''univariate'']]"
  unfolding smoothers_dir by (simp add: kernel_of_method_def smoother_methods_def)

text \<open>
  C3. The manifest names about 13 native kernels: \<open>ext_data\<close> together with
  \<open>statespace_ext_data\<close> has 15 entries under 15 different keys, 3 and 12, and their
  module file names are 13 different names (\<open>_conventional\<close> and \<open>_univariate\<close> each
  name a filter kernel and a smoother kernel).
\<close>

theorem declared_kernels_count:
  "length (declared_kernels npy) = 15
   \<and> length (ext_data npy) = 3 \<and> length (statespace_ext_data npy) = 12
   \<and> distinct (map fst (declared_kernels npy))
   \<and> length (remdups (kernel_names (declared_kernels npy))) = 13
   \<and> remdups (kernel_names (declared_kernels npy)) =
       [''_hamilton_filter'', ''_kim_smoother'', ''_statespace'', ''_representation'',
        ''_kalman_filter'', ''_inversions'', ''_kalman_smoother'', ''_alternative'',
        ''_classical'', ''_conventional'', ''_univariate'', ''_simulation_smoother'',
        ''_tools'']"
  by (simp add: declared_kernels_def kernel_names_def ext_data_def statespace_ext_data_def
      npy_entry_def module_filename_def)

lemma dict_update_manifest:
  "dict_update (ext_data npy) (statespace_ext_data npy) = ext_data npy @ statespace_ext_data npy"
  by (simp add: dict_update_def ext_data_def statespace_ext_data_def)

lemma extensions_built:
  "drop (length cy) (extensions cy cov b sep npy) =
     map (\<lambda>kv. make_extension cov (fst kv) (snd kv)) (ext_data npy) @
     (if b then map (\<lambda>kv. make_extension cov (fst kv) (snd kv)) (statespace_ext_data npy)
      else [])"
  by (simp add: extensions_def select_kernels_def dict_update_manifest)

lemma exclusion_paths:
  "map (\<lambda>kv. exclusion_path sep (snd kv)) (statespace_ext_data npy) =
     map (replace_char CHR ''/'' sep)
       [''statsmodels/tsa/statespace/_representation.pyx.in'',
        ''statsmodels/tsa/statespace/_kalman_filter.pyx.in'',
        ''statsmodels/tsa/statespace/_filters/_conventional.pyx.in'',
        ''statsmodels/tsa/statespace/_filters/_inversions.pyx.in'',
        ''statsmodels/tsa/statespace/_filters/_univariate.pyx.in'',
        ''statsmodels/tsa/statespace/_kalman_smoother.pyx.in'',
        ''statsmodels/tsa/statespace/_smoothers/_alternative.pyx.in'',
        ''statsmodels/tsa/statespace/_smoothers/_classical.pyx.in'',
        ''statsmodels/tsa/statespace/_smoothers/_conventional.pyx.in'',
        ''statsmodels/tsa/statespace/_smoothers/_univariate.pyx.in'',
        ''statsmodels/tsa/statespace/_simulation_smoother.pyx.in'',
        ''statsmodels/tsa/statespace/_tools.pyx.in'']"
  by (simp add: statespace_ext_data_def npy_entry_def exclusion_path_def)

lemma exclusion_fold:
  "foldl (\<lambda>contents kv. append_cython_exclusion (f kv) contents) acc d =
     acc @ concat (map (\<lambda>kv. f kv @ [CHR 0x0A]) d)"
  by (induction d arbitrary: acc) (simp_all add: append_cython_exclusion_def)

lemma exclusion_file_lines:
  "exclusion_file b sep npy =
     (if b then []
      else concat (map (\<lambda>p. p @ [CHR 0x0A])
             (map (\<lambda>kv. exclusion_path sep (snd kv)) (statespace_ext_data npy))))"
  by (simp add: exclusion_file_def select_kernels_def init_cython_exclusion_def exclusion_fold
      comp_def)

lemma core_extensions:
  "map (\<lambda>kv. make_extension cov (fst kv) (snd kv)) (ext_data npy) =
     [
      \<lparr> ext_name = ''statsmodels.tsa.regime_switching._hamilton_filter'',
        ext_sources = [''statsmodels/tsa/regime_switching/_hamilton_filter.c''],
        ext_depends = [], ext_include_dirs = [],
        ext_libraries = [], ext_library_dirs = [],
        ext_define_macros = [(''CYTHON_TRACE_NOGIL'', if cov then ''1'' else ''0'')] \<rparr>,
      \<lparr> ext_name = ''statsmodels.tsa.regime_switching._kim_smoother'',
        ext_sources = [''statsmodels/tsa/regime_switching/_kim_smoother.c''],
        ext_depends = [], ext_include_dirs = [],
        ext_libraries = [], ext_library_dirs = [],
        ext_define_macros = [(''CYTHON_TRACE_NOGIL'', if cov then ''1'' else ''0'')] \<rparr>,
      \<lparr> ext_name = ''statsmodels.tsa.statespace._statespace'',
        ext_sources = [''statsmodels/tsa/statespace/_statespace.c''],
        ext_depends = [''statsmodels/src/capsule.h''], ext_include_dirs = ''statsmodels/src'' # np_include_dirs npy,
        ext_libraries = np_libraries npy, ext_library_dirs = np_library_dirs npy,
        ext_define_macros = [(''CYTHON_TRACE_NOGIL'', if cov then ''1'' else ''0'')] \<rparr>]"
  by (simp add: ext_data_def make_extension_def destdir_def dirname_def rstrip_slash_def
      module_filename_def list_or_empty_def macros_def)

lemma statespace_extensions:
  "map (\<lambda>kv. make_extension cov (fst kv) (snd kv)) (statespace_ext_data npy) =
     [
      \<lparr> ext_name = ''statsmodels.tsa.statespace._representation'',
        ext_sources = [''statsmodels/tsa/statespace/_representation.c''],
        ext_depends = [], ext_include_dirs = ''statsmodels/src'' # np_include_dirs npy,
        ext_libraries = np_libraries npy, ext_library_dirs = np_library_dirs npy,
        ext_define_macros = [(''CYTHON_TRACE_NOGIL'', if cov then ''1'' else ''0'')] \<rparr>,
      \<lparr> ext_name = ''statsmodels.tsa.statespace._kalman_filter'',
        ext_sources = [''statsmodels/tsa/statespace/_kalman_filter.c''],
        ext_depends = [], ext_include_dirs = ''statsmodels/src'' # np_include_dirs npy,
        ext_libraries = np_libraries npy, ext_library_dirs = np_library_dirs npy,
        ext_define_macros = [(''CYTHON_TRACE_NOGIL'', if cov then ''1'' else ''0'')] \<rparr>,
      \<lparr> ext_name = ''statsmodels.tsa.statespace._filters._conventional'',
        ext_sources = [''statsmodels/tsa/statespace/_filters/_conventional.c''],
        ext_depends = [], ext_include_dirs = ''statsmodels/src'' # np_include_dirs npy,
        ext_libraries = np_libraries npy, ext_library_dirs = np_library_dirs npy,
        ext_define_macros = [(''CYTHON_TRACE_NOGIL'', if cov then ''1'' else ''0'')] \<rparr>,
      \<lparr> ext_name = ''statsmodels.tsa.statespace._filters._inversions'',
        ext_sources = [''statsmodels/tsa/statespace/_filters/_inversions.c''],
        ext_depends = [], ext_include_dirs = ''statsmodels/src'' # np_include_dirs npy,
        ext_libraries = np_libraries npy, ext_library_dirs = np_library_dirs npy,
        ext_define_macros = [(''CYTHON_TRACE_NOGIL'', if cov then ''1'' else ''0'')] \<rparr>,
      \<lparr> ext_name = ''statsmodels.tsa.statespace._filters._univariate'',
        ext_sources = [''statsmodels/tsa/statespace/_filters/_univariate.c''],
        ext_depends = [], ext_include_dirs = ''statsmodels/src'' # np_include_dirs npy,
        ext_libraries = np_libraries npy, ext_library_dirs = np_library_dirs npy,
        ext_define_macros = [(''CYTHON_TRACE_NOGIL'', if cov then ''1'' else ''0'')] \<rparr>,
      \<lparr> ext_name = ''statsmodels.tsa.statespace._kalman_smoother'',
        ext_sources = [''statsmodels/tsa/statespace/_kalman_smoother.c''],
        ext_depends = [], ext_include_dirs = ''statsmodels/src'' # np_include_dirs npy,
        ext_libraries = np_libraries npy, ext_library_dirs = np_library_dirs npy,
        ext_define_macros = [(''CYTHON_TRACE_NOGIL'', if cov then ''1'' else ''0'')] \<rparr>,
      \<lparr> ext_name = ''statsmodels.tsa.statespace._smoothers._alternative'',
        ext_sources = [''statsmodels/tsa/statespace/_smoothers/_alternative.c''],
        ext_depends = [], ext_include_dirs = ''statsmodels/src'' # np_include_dirs npy,
        ext_libraries = np_libraries npy, ext_library_dirs = np_library_dirs npy,
        ext_define_macros = [(''CYTHON_TRACE_NOGIL'', if cov then ''1'' else ''0'')] \<rparr>,
      \<lparr> ext_name = ''statsmodels.tsa.statespace._smoothers._classical'',
        ext_sources = [''statsmodels/tsa/statespace/_smoothers/_classical.c''],
        ext_depends = [], ext_include_dirs = ''statsmodels/src'' # np_include_dirs npy,
        ext_libraries = np_libraries npy, ext_library_dirs = np_library_dirs npy,
        ext_define_macros = [(''CYTHON_TRACE_NOGIL'', if cov then ''1'' else ''0'')] \<rparr>,
      \<lparr> ext_name = ''statsmodels.tsa.statespace._smoothers._conventional'',
        ext_sources = [''statsmodels/tsa/statespace/_smoothers/_conventional.c''],
        ext_depends = [], ext_include_dirs = ''statsmodels/src'' # np_include_dirs npy,
        ext_libraries = np_libraries npy, ext_library_dirs = np_library_dirs npy,
        ext_define_macros = [(''CYTHON_TRACE_NOGIL'', if cov then ''1'' else ''0'')] \<rparr>,
      \<lparr> ext_name = ''statsmodels.tsa.statespace._smoothers._univariate'',
        ext_sources = [''statsmodels/tsa/statespace/_smoothers/_univariate.c''],
        ext_depends = [], ext_include_dirs = ''statsmodels/src'' # np_include_dirs npy,
        ext_libraries = np_libraries npy, ext_library_dirs = np_library_dirs npy,
        ext_define_macros = [(''CYTHON_TRACE_NOGIL'', if cov then ''1'' else ''0'')] \<rparr>,
      \<lparr> ext_name = ''statsmodels.tsa.statespace._simulation_smoother'',
        ext_sources = [''statsmodels/tsa/statespace/_simulation_smoother.c''],
        ext_depends = [], ext_include_dirs = ''statsmodels/src'' # np_include_dirs npy,
        ext_libraries = np_libraries npy, ext_library_dirs = np_library_dirs npy,
        ext_define_macros = [(''CYTHON_TRACE_NOGIL'', if cov then ''1'' else ''0'')] \<rparr>,
      \<lparr> ext_name = ''statsmodels.tsa.statespace._tools'',
        ext_sources = [''statsmodels/tsa/statespace/_tools.c''],
        ext_depends = [], ext_include_dirs = [],
        ext_libraries = [], ext_library_dirs = [],
        ext_define_macros = [(''CYTHON_TRACE_NOGIL'', if cov then ''1'' else ''0'')] \<rparr>]"
  by (simp add: statespace_ext_data_def npy_entry_def make_extension_def destdir_def
      dirname_def rstrip_slash_def module_filename_def list_or_empty_def macros_def)

text \<open>
  C10. The twelve kernels of \<open>statespace_ext_data\<close> are among the extensions, each with
  its C file as its source, exactly when \<open>from scipy.linalg import cython_blas\<close> succeeds
  (\<open>b\<close>). When it fails, the exclusion file holds the \<open>.pyx.in\<close> path of each of them,
  one per line, and none of them is built; \<open>_hamilton_filter\<close>, \<open>_kim_smoother\<close> and
  \<open>_statespace\<close> are built from their C files either way. The extensions are listed
  after the \<open>length cy\<close> that \<open>cythonize\<close> returned: first by module name and sources,
  then with every argument of \<open>Extension\<close>.
\<close>

theorem statespace_kernels_need_cython_blas:
  "length (statespace_ext_data npy) = 12
   \<and> map (\<lambda>e. (ext_name e, ext_sources e))
        (drop (length cy) (extensions cy cov b sep npy)) =
       [
        (''statsmodels.tsa.regime_switching._hamilton_filter'',
          [''statsmodels/tsa/regime_switching/_hamilton_filter.c'']),
        (''statsmodels.tsa.regime_switching._kim_smoother'',
          [''statsmodels/tsa/regime_switching/_kim_smoother.c'']),
        (''statsmodels.tsa.statespace._statespace'',
          [''statsmodels/tsa/statespace/_statespace.c''])] @
       (if b then
          [
           (''statsmodels.tsa.statespace._representation'',
             [''statsmodels/tsa/statespace/_representation.c'']),
           (''statsmodels.tsa.statespace._kalman_filter'',
             [''statsmodels/tsa/statespace/_kalman_filter.c'']),
           (''statsmodels.tsa.statespace._filters._conventional'',
             [''statsmodels/tsa/statespace/_filters/_conventional.c'']),
           (''statsmodels.tsa.statespace._filters._inversions'',
             [''statsmodels/tsa/statespace/_filters/_inversions.c'']),
           (''statsmodels.tsa.statespace._filters._univariate'',
             [''statsmodels/tsa/statespace/_filters/_univariate.c'']),
           (''statsmodels.tsa.statespace._kalman_smoother'',
             [''statsmodels/tsa/statespace/_kalman_smoother.c'']),
           (''statsmodels.tsa.statespace._smoothers._alternative'',
             [''statsmodels/tsa/statespace/_smoothers/_alternative.c'']),
           (''statsmodels.tsa.statespace._smoothers._classical'',
             [''statsmodels/tsa/statespace/_smoothers/_classical.c'']),
           (''statsmodels.tsa.statespace._smoothers._conventional'',
             [''statsmodels/tsa/statespace/_smoothers/_conventional.c'']),
           (''statsmodels.tsa.statespace._smoothers._univariate'',
             [''statsmodels/tsa/statespace/_smoothers/_univariate.c'']),
           (''statsmodels.tsa.statespace._simulation_smoother'',
             [''statsmodels/tsa/statespace/_simulation_smoother.c'']),
           (''statsmodels.tsa.statespace._tools'',
             [''statsmodels/tsa/statespace/_tools.c''])]
        else [])
   \<and> drop (length cy) (extensions cy cov b sep npy) =
       [
        \<lparr> ext_name = ''statsmodels.tsa.regime_switching._hamilton_filter'',
          ext_sources = [''statsmodels/tsa/regime_switching/_hamilton_filter.c''],
          ext_depends = [], ext_include_dirs = [],
          ext_libraries = [], ext_library_dirs = [],
          ext_define_macros = [(''CYTHON_TRACE_NOGIL'', if cov then ''1'' else ''0'')] \<rparr>,
        \<lparr> ext_name = ''statsmodels.tsa.regime_switching._kim_smoother'',
          ext_sources = [''statsmodels/tsa/regime_switching/_kim_smoother.c''],
          ext_depends = [], ext_include_dirs = [],
          ext_libraries = [], ext_library_dirs = [],
          ext_define_macros = [(''CYTHON_TRACE_NOGIL'', if cov then ''1'' else ''0'')] \<rparr>,
        \<lparr> ext_name = ''statsmodels.tsa.statespace._statespace'',
          ext_sources = [''statsmodels/tsa/statespace/_statespace.c''],
          ext_depends = [''statsmodels/src/capsule.h''], ext_include_dirs = ''statsmodels/src'' # np_include_dirs npy,
          ext_libraries = np_libraries npy, ext_library_dirs = np_library_dirs npy,
          ext_define_macros = [(''CYTHON_TRACE_NOGIL'', if cov then ''1'' else ''0'')] \<rparr>] @
       (if b then
          [
           \<lparr> ext_name = ''statsmodels.tsa.statespace._representation'',
             ext_sources = [''statsmodels/tsa/statespace/_representation.c''],
             ext_depends = [], ext_include_dirs = ''statsmodels/src'' # np_include_dirs npy,
             ext_libraries = np_libraries npy, ext_library_dirs = np_library_dirs npy,
             ext_define_macros = [(''CYTHON_TRACE_NOGIL'', if cov then ''1'' else ''0'')] \<rparr>,
           \<lparr> ext_name = ''statsmodels.tsa.statespace._kalman_filter'',
             ext_sources = [''statsmodels/tsa/statespace/_kalman_filter.c''],
             ext_depends = [], ext_include_dirs = ''statsmodels/src'' # np_include_dirs npy,
             ext_libraries = np_libraries npy, ext_library_dirs = np_library_dirs npy,
             ext_define_macros = [(''CYTHON_TRACE_NOGIL'', if cov then ''1'' else ''0'')] \<rparr>,
           \<lparr> ext_name = ''statsmodels.tsa.statespace._filters._conventional'',
             ext_sources = [''statsmodels/tsa/statespace/_filters/_conventional.c''],
             ext_depends = [], ext_include_dirs = ''statsmodels/src'' # np_include_dirs npy,
             ext_libraries = np_libraries npy, ext_library_dirs = np_library_dirs npy,
             ext_define_macros = [(''CYTHON_TRACE_NOGIL'', if cov then ''1'' else ''0'')] \<rparr>,
           \<lparr> ext_name = ''statsmodels.tsa.statespace._filters._inversions'',
             ext_sources = [''statsmodels/tsa/statespace/_filters/_inversions.c''],
             ext_depends = [], ext_include_dirs = ''statsmodels/src'' # np_include_dirs npy,
             ext_libraries = np_libraries npy, ext_library_dirs = np_library_dirs npy,
             ext_define_macros = [(''CYTHON_TRACE_NOGIL'', if cov then ''1'' else ''0'')] \<rparr>,
           \<lparr> ext_name = ''statsmodels.tsa.statespace._filters._univariate'',
             ext_sources = [''statsmodels/tsa/statespace/_filters/_univariate.c''],
             ext_depends = [], ext_include_dirs = ''statsmodels/src'' # np_include_dirs npy,
             ext_libraries = np_libraries npy, ext_library_dirs = np_library_dirs npy,
             ext_define_macros = [(''CYTHON_TRACE_NOGIL'', if cov then ''1'' else ''0'')] \<rparr>,
           \<lparr> ext_name = ''statsmodels.tsa.statespace._kalman_smoother'',
             ext_sources = [''statsmodels/tsa/statespace/_kalman_smoother.c''],
             ext_depends = [], ext_include_dirs = ''statsmodels/src'' # np_include_dirs npy,
             ext_libraries = np_libraries npy, ext_library_dirs = np_library_dirs npy,
             ext_define_macros = [(''CYTHON_TRACE_NOGIL'', if cov then ''1'' else ''0'')] \<rparr>,
           \<lparr> ext_name = ''statsmodels.tsa.statespace._smoothers._alternative'',
             ext_sources = [''statsmodels/tsa/statespace/_smoothers/_alternative.c''],
             ext_depends = [], ext_include_dirs = ''statsmodels/src'' # np_include_dirs npy,
             ext_libraries = np_libraries npy, ext_library_dirs = np_library_dirs npy,
             ext_define_macros = [(''CYTHON_TRACE_NOGIL'', if cov then ''1'' else ''0'')] \<rparr>,
           \<lparr> ext_name = ''statsmodels.tsa.statespace._smoothers._classical'',
             ext_sources = [''statsmodels/tsa/statespace/_smoothers/_classical.c''],
             ext_depends = [], ext_include_dirs = ''statsmodels/src'' # np_include_dirs npy,
             ext_libraries = np_libraries npy, ext_library_dirs = np_library_dirs npy,
             ext_define_macros = [(''CYTHON_TRACE_NOGIL'', if cov then ''1'' else ''0'')] \<rparr>,
           \<lparr> ext_name = ''statsmodels.tsa.statespace._smoothers._conventional'',
             ext_sources = [''statsmodels/tsa/statespace/_smoothers/_conventional.c''],
             ext_depends = [], ext_include_dirs = ''statsmodels/src'' # np_include_dirs npy,
             ext_libraries = np_libraries npy, ext_library_dirs = np_library_dirs npy,
             ext_define_macros = [(''CYTHON_TRACE_NOGIL'', if cov then ''1'' else ''0'')] \<rparr>,
           \<lparr> ext_name = ''statsmodels.tsa.statespace._smoothers._univariate'',
             ext_sources = [''statsmodels/tsa/statespace/_smoothers/_univariate.c''],
             ext_depends = [], ext_include_dirs = ''statsmodels/src'' # np_include_dirs npy,
             ext_libraries = np_libraries npy, ext_library_dirs = np_library_dirs npy,
             ext_define_macros = [(''CYTHON_TRACE_NOGIL'', if cov then ''1'' else ''0'')] \<rparr>,
           \<lparr> ext_name = ''statsmodels.tsa.statespace._simulation_smoother'',
             ext_sources = [''statsmodels/tsa/statespace/_simulation_smoother.c''],
             ext_depends = [], ext_include_dirs = ''statsmodels/src'' # np_include_dirs npy,
             ext_libraries = np_libraries npy, ext_library_dirs = np_library_dirs npy,
             ext_define_macros = [(''CYTHON_TRACE_NOGIL'', if cov then ''1'' else ''0'')] \<rparr>,
           \<lparr> ext_name = ''statsmodels.tsa.statespace._tools'',
             ext_sources = [''statsmodels/tsa/statespace/_tools.c''],
             ext_depends = [], ext_include_dirs = [],
             ext_libraries = [], ext_library_dirs = [],
             ext_define_macros = [(''CYTHON_TRACE_NOGIL'', if cov then ''1'' else ''0'')] \<rparr>]
        else [])
   \<and> exclusion_file b sep npy =
       (if b then []
        else concat (map (\<lambda>p. replace_char CHR ''/'' sep p @ [CHR 0x0A])
               [
                ''statsmodels/tsa/statespace/_representation.pyx.in'',
                ''statsmodels/tsa/statespace/_kalman_filter.pyx.in'',
                ''statsmodels/tsa/statespace/_filters/_conventional.pyx.in'',
                ''statsmodels/tsa/statespace/_filters/_inversions.pyx.in'',
                ''statsmodels/tsa/statespace/_filters/_univariate.pyx.in'',
                ''statsmodels/tsa/statespace/_kalman_smoother.pyx.in'',
                ''statsmodels/tsa/statespace/_smoothers/_alternative.pyx.in'',
                ''statsmodels/tsa/statespace/_smoothers/_classical.pyx.in'',
                ''statsmodels/tsa/statespace/_smoothers/_conventional.pyx.in'',
                ''statsmodels/tsa/statespace/_smoothers/_univariate.pyx.in'',
                ''statsmodels/tsa/statespace/_simulation_smoother.pyx.in'',
                ''statsmodels/tsa/statespace/_tools.pyx.in'']))"
proof -
  have n: "length (statespace_ext_data npy) = 12"
    by (simp add: statespace_ext_data_def)
  have built: "drop (length cy) (extensions cy cov b sep npy) =
      map (\<lambda>kv. make_extension cov (fst kv) (snd kv)) (ext_data npy) @
      (if b then map (\<lambda>kv. make_extension cov (fst kv) (snd kv)) (statespace_ext_data npy)
       else [])"
    by (rule extensions_built)
  have excl: "exclusion_file b sep npy =
      (if b then []
       else concat (map (\<lambda>p. p @ [CHR 0x0A])
              (map (\<lambda>kv. exclusion_path sep (snd kv)) (statespace_ext_data npy))))"
    by (rule exclusion_file_lines)
  show ?thesis
    unfolding built excl core_extensions statespace_extensions exclusion_paths
    using n by (simp add: comp_def)
qed

section \<open>The version checks\<close>

lemma check_numpy_install:
  "check_numpy py3 mv env rq = Inr rq' \<Longrightarrow> set (snd rq') \<subseteq> set (snd rq) \<union> {''numpy''}"
  by (auto simp: check_numpy_def split: option.splits sum.splits if_splits)

lemma check_scipy_install:
  "check_scipy py3 mv env rq = Inr rq' \<Longrightarrow> set (snd rq') \<subseteq> set (snd rq) \<union> {''scipy''}"
  by (auto simp: check_scipy_def split: option.splits sum.splits if_splits)

lemma check_patsy_install:
  "check_patsy py3 mv env rq = Inr rq' \<Longrightarrow> set (snd rq') \<subseteq> set (snd rq) \<union> {''patsy''}"
  by (auto simp: check_patsy_def split: option.splits sum.splits if_splits)

text \<open>The four predicates say exactly that the statement raises nothing.\<close>

lemma numpy_passes_iff:
  "numpy_passes py3 mv env = (\<exists>rq'. check_numpy py3 mv env rq = Inr rq')"
  by (auto simp: numpy_passes_def check_numpy_def adequate_def
      split: option.splits sum.splits)

lemma scipy_passes_iff:
  "scipy_passes py3 mv env = (\<exists>rq'. check_scipy py3 mv env rq = Inr rq')"
  by (auto simp: scipy_passes_def check_scipy_def adequate_def
      split: option.splits sum.splits)

lemma pandas_passes_iff:
  "pandas_passes py3 mv env = (\<exists>rq'. check_pandas py3 mv env rq = Inr rq')"
  by (auto simp: pandas_passes_def check_pandas_def adequate_def too_old_def
      split: option.splits sum.splits)

lemma patsy_passes_iff:
  "patsy_passes py3 mv env = (\<exists>rq'. check_patsy py3 mv env rq = Inr rq')"
  by (auto simp: patsy_passes_def check_patsy_def adequate_def
      split: option.splits sum.splits)

lemma check_numpy_passes:
  "numpy_passes py3 mv env \<Longrightarrow>
     check_numpy py3 mv env rq =
       Inr (fst rq @ (if numpy_short_version env = None then [''numpy''] else []),
            snd rq @ (if numpy_short_version env = None then [''numpy''] else []))"
  by (auto simp: numpy_passes_def check_numpy_def adequate_def split: option.splits)

lemma check_scipy_passes:
  "scipy_passes py3 mv env \<Longrightarrow>
     check_scipy py3 mv env rq =
       Inr (fst rq, snd rq @ (if scipy_version_module env = None then [''scipy''] else []))"
  by (auto simp: scipy_passes_def check_scipy_def adequate_def
      split: option.splits sum.splits)

lemma check_pandas_passes:
  "pandas_passes py3 mv env \<Longrightarrow>
     check_pandas py3 mv env rq =
       Inr (fst rq, snd rq @ (if pandas_version env = None then [''pandas''] else []))"
  by (auto simp: pandas_passes_def check_pandas_def adequate_def too_old_def
      split: option.splits)

lemma check_patsy_passes:
  "patsy_passes py3 mv env \<Longrightarrow>
     check_patsy py3 mv env rq =
       Inr (fst rq, snd rq @ (if patsy_version env = None then [''patsy''] else []))"
  by (auto simp: patsy_passes_def check_patsy_def adequate_def split: option.splits)

lemma too_old_nonempty:
  "too_old py3 mv key v \<Longrightarrow> v \<noteq> [] \<and> min_of mv key \<noteq> []"
  by (auto simp: too_old_def version_at_least_def min_of_def loose_ge_def
      split: option.splits if_splits)

lemma adequate_min_of:
  "too_old py3 mv key v \<Longrightarrow> adequate py3 mv key (min_of mv key)"
  by (auto simp: too_old_def adequate_def version_at_least_def min_of_def loose_ge_def
      split: option.splits if_splits)

lemma pandas_too_old_passes:
  "pandas_installed env pv \<Longrightarrow> too_old py3 mv ''pandas'' pv \<Longrightarrow> pandas_passes py3 mv env"
  by (simp add: pandas_passes_def pandas_installed_def)

lemma check_pandas_too_old:
  "pandas_installed env pv \<Longrightarrow> too_old py3 mv ''pandas'' pv \<Longrightarrow>
     check_pandas py3 mv env rq = Inr rq"
  by (simp add: check_pandas_def too_old_def pandas_installed_def)

lemma check_pandas_adequate:
  "pandas_installed env pv \<Longrightarrow> adequate py3 mv ''pandas'' pv \<Longrightarrow>
     check_pandas py3 mv env rq = Inr rq"
  by (simp add: check_pandas_def adequate_def pandas_installed_def)

lemma check_numpy_too_old:
  "numpy_installed env nv \<Longrightarrow> too_old py3 mv ''numpy'' nv \<Longrightarrow>
     check_numpy py3 mv env rq =
       Inl (ImportError (version_message ''Numpy'' nv (min_of mv ''numpy'')))"
  by (simp add: check_numpy_def too_old_def numpy_installed_def)

lemma check_scipy_too_old:
  "scipy_installed env sv \<Longrightarrow> too_old py3 mv ''scipy'' sv \<Longrightarrow>
     check_scipy py3 mv env rq =
       Inl (ImportError (version_message ''Scipy'' sv (min_of mv ''scipy'')))"
  by (auto simp: check_scipy_def too_old_def scipy_installed_def split: option.splits)

lemma check_patsy_too_old:
  "patsy_installed env tv \<Longrightarrow> too_old py3 mv ''patsy'' tv \<Longrightarrow>
     check_patsy py3 mv env rq =
       Inl (ImportError (version_message ''Patsy'' tv (min_of mv ''patsy'')))"
  by (auto simp: check_patsy_def too_old_def patsy_installed_def split: option.splits)

lemma pandas_as_if_adequate:
  assumes "pandas_installed env pv" "too_old py3 mv ''pandas'' pv"
  shows "check_dependency_versions py3 mv env =
         check_dependency_versions py3 mv (env\<lparr>pandas_version := Some (min_of mv ''pandas'')\<rparr>)"
proof -
  have p: "check_pandas py3 mv env rq =
           check_pandas py3 mv (env\<lparr>pandas_version := Some (min_of mv ''pandas'')\<rparr>) rq" for rq
    using check_pandas_too_old[OF assms]
      check_pandas_adequate[OF _ adequate_min_of[OF assms(2)],
        of "env\<lparr>pandas_version := Some (min_of mv ''pandas'')\<rparr>"]
    by (simp add: pandas_installed_def)
  have others:
    "check_numpy py3 mv (env\<lparr>pandas_version := v\<rparr>) rq = check_numpy py3 mv env rq"
    "check_scipy py3 mv (env\<lparr>pandas_version := v\<rparr>) rq = check_scipy py3 mv env rq"
    "check_patsy py3 mv (env\<lparr>pandas_version := v\<rparr>) rq = check_patsy py3 mv env rq" for v rq
    by (simp_all add: check_numpy_def check_scipy_def check_patsy_def)
  show ?thesis
    by (simp add: check_dependency_versions_def others p)
qed

lemma pandas_not_required:
  assumes "pandas_installed env pv" "too_old py3 mv ''pandas'' pv"
    and "check_dependency_versions py3 mv env = Inr rq"
  shows "''pandas'' \<notin> set (snd rq)"
proof -
  from assms(3) obtain rq1 rq2 rq3 where
    1: "check_numpy py3 mv env ([], []) = Inr rq1" and
    2: "check_scipy py3 mv env rq1 = Inr rq2" and
    3: "check_pandas py3 mv env rq2 = Inr rq3" and
    4: "check_patsy py3 mv env rq3 = Inr rq"
    by (auto simp: check_dependency_versions_def and_then_def split: sum.splits)
  from 3 assms(1,2) have "rq3 = rq2" by (simp add: check_pandas_too_old)
  with check_numpy_install[OF 1] check_scipy_install[OF 2] check_patsy_install[OF 4]
  show ?thesis by auto
qed

lemma all_pass:
  assumes "numpy_passes py3 mv env" "scipy_passes py3 mv env" "pandas_passes py3 mv env"
    "patsy_passes py3 mv env"
  shows "check_dependency_versions py3 mv env = Inr (missing_requires env)"
  by (simp add: check_dependency_versions_def and_then_def missing_requires_def
      check_numpy_passes[OF assms(1)] check_scipy_passes[OF assms(2)]
      check_pandas_passes[OF assms(3)] check_patsy_passes[OF assms(4)])

text \<open>An installed pandas whose version string is empty: the comparison raises.\<close>

lemma check_pandas_empty_version:
  "mv ''pandas'' = Some m \<Longrightarrow>
     check_pandas py3 mv (env\<lparr>pandas_version := Some []\<rparr>) rq = Inl AttributeError"
  by (simp add: check_pandas_def version_at_least_def loose_ge_def)

text \<open>
  C9. \<open>check_dependency_versions\<close> does not enforce the minimum version of pandas. With
  an installed pandas below \<open>min_versions['pandas']\<close> the function does what it does with
  a pandas at the minimum: it never adds \<open>'pandas'\<close> to \<open>install_requires\<close>, and where the
  checks of numpy, scipy and patsy raise nothing it returns normally, with the lists of
  the packages that are not installed. An installed numpy, scipy or patsy below its
  minimum raises \<open>ImportError\<close> (for scipy and patsy: where the checks before it raise
  nothing, whether their package is installed or not), as the docstring says of every
  dependency.
\<close>

theorem pandas_minimum_not_enforced:
  "(pandas_installed env pv \<and> too_old py3 mv ''pandas'' pv \<longrightarrow>
      check_dependency_versions py3 mv env =
        check_dependency_versions py3 mv (env\<lparr>pandas_version := Some (min_of mv ''pandas'')\<rparr>)
      \<and> (\<forall>rq. check_dependency_versions py3 mv env = Inr rq \<longrightarrow> ''pandas'' \<notin> set (snd rq))
      \<and> (numpy_passes py3 mv env \<and> scipy_passes py3 mv env \<and> patsy_passes py3 mv env \<longrightarrow>
            check_dependency_versions py3 mv env = Inr (missing_requires env)
            \<and> ''pandas'' \<notin> set (snd (missing_requires env))))
   \<and> (numpy_installed env nv \<and> too_old py3 mv ''numpy'' nv \<longrightarrow>
        check_dependency_versions py3 mv env =
          Inl (ImportError (version_message ''Numpy'' nv (min_of mv ''numpy''))))
   \<and> (numpy_passes py3 mv env \<and>
       scipy_installed env sv \<and> too_old py3 mv ''scipy'' sv \<longrightarrow>
        check_dependency_versions py3 mv env =
          Inl (ImportError (version_message ''Scipy'' sv (min_of mv ''scipy''))))
   \<and> (numpy_passes py3 mv env \<and> scipy_passes py3 mv env \<and> pandas_passes py3 mv env \<and>
       patsy_installed env tv \<and> too_old py3 mv ''patsy'' tv \<longrightarrow>
        check_dependency_versions py3 mv env =
          Inl (ImportError (version_message ''Patsy'' tv (min_of mv ''patsy''))))"
proof (intro conjI impI allI)
  assume "pandas_installed env pv \<and> too_old py3 mv ''pandas'' pv"
  then show "check_dependency_versions py3 mv env =
      check_dependency_versions py3 mv (env\<lparr>pandas_version := Some (min_of mv ''pandas'')\<rparr>)"
    using pandas_as_if_adequate by blast
next
  fix rq
  assume "pandas_installed env pv \<and> too_old py3 mv ''pandas'' pv"
    and "check_dependency_versions py3 mv env = Inr rq"
  then show "''pandas'' \<notin> set (snd rq)"
    using pandas_not_required by blast
next
  assume p: "pandas_installed env pv \<and> too_old py3 mv ''pandas'' pv"
    and a: "numpy_passes py3 mv env \<and> scipy_passes py3 mv env \<and> patsy_passes py3 mv env"
  from p have "pandas_passes py3 mv env"
    using pandas_too_old_passes by blast
  with a show "check_dependency_versions py3 mv env = Inr (missing_requires env)"
    by (simp add: all_pass)
next
  assume p: "pandas_installed env pv \<and> too_old py3 mv ''pandas'' pv"
  then show "''pandas'' \<notin> set (snd (missing_requires env))"
    by (simp add: missing_requires_def pandas_installed_def)
next
  assume a: "numpy_installed env nv \<and> too_old py3 mv ''numpy'' nv"
  have "check_numpy py3 mv env rq =
      Inl (ImportError (version_message ''Numpy'' nv (min_of mv ''numpy'')))" for rq
    using a check_numpy_too_old by blast
  then show "check_dependency_versions py3 mv env =
      Inl (ImportError (version_message ''Numpy'' nv (min_of mv ''numpy'')))"
    by (simp add: check_dependency_versions_def and_then_def)
next
  assume a: "numpy_passes py3 mv env \<and>
          scipy_installed env sv \<and> too_old py3 mv ''scipy'' sv"
  have "check_scipy py3 mv env rq =
      Inl (ImportError (version_message ''Scipy'' sv (min_of mv ''scipy'')))" for rq
    using a check_scipy_too_old by blast
  with a show "check_dependency_versions py3 mv env =
      Inl (ImportError (version_message ''Scipy'' sv (min_of mv ''scipy'')))"
    by (simp add: check_dependency_versions_def and_then_def check_numpy_passes)
next
  assume a: "numpy_passes py3 mv env \<and> scipy_passes py3 mv env \<and> pandas_passes py3 mv env \<and>
       patsy_installed env tv \<and> too_old py3 mv ''patsy'' tv"
  have "check_patsy py3 mv env rq =
      Inl (ImportError (version_message ''Patsy'' tv (min_of mv ''patsy'')))" for rq
    using a check_patsy_too_old by blast
  with a show "check_dependency_versions py3 mv env =
      Inl (ImportError (version_message ''Patsy'' tv (min_of mv ''patsy'')))"
    by (simp add: check_dependency_versions_def and_then_def check_numpy_passes
        check_scipy_passes check_pandas_passes)
qed

theorem pandas_minimum_not_enforced_witness:
  "too_old True (script_min_versions (3, 5)) ''pandas'' ''0.17.1''
   \<and> check_dependency_versions True (script_min_versions (3, 5))
        \<lparr> numpy_short_version = Some ''1.15.0'',
          scipy_version_module = Some \<lparr> short_version = Some ''1.1.0'', version = Inr ''1.1.0'' \<rparr>,
          pandas_version = Some ''0.17.1'',
          patsy_version = Some ''0.5.0+dev'' \<rparr> = Inr ([], [])
   \<and> check_dependency_versions True (script_min_versions (3, 5))
        \<lparr> numpy_short_version = None,
          scipy_version_module = None,
          pandas_version = Some ''0.17.1'',
          patsy_version = Some ''0.5.0+dev'' \<rparr> = Inr ([''numpy''], [''numpy'', ''scipy''])
   \<and> too_old True (script_min_versions (3, 5)) ''numpy'' ''1.8.2''
   \<and> check_dependency_versions True (script_min_versions (3, 5))
        \<lparr> numpy_short_version = Some ''1.8.2'',
          scipy_version_module = Some \<lparr> short_version = Some ''1.1.0'', version = Inr ''1.1.0'' \<rparr>,
          pandas_version = Some ''0.17.1'',
          patsy_version = Some ''0.5.0+dev'' \<rparr> =
       Inl (ImportError ''Numpy version is 1.8.2. Requires >= 1.9.0'')
   \<and> too_old True (script_min_versions (3, 5)) ''scipy'' ''0.15.1''
   \<and> check_dependency_versions True (script_min_versions (3, 5))
        \<lparr> numpy_short_version = None,
          scipy_version_module = Some \<lparr> short_version = Some ''0.15.1'', version = Inr ''0.15.1'' \<rparr>,
          pandas_version = Some ''0.17.1'',
          patsy_version = Some ''0.5.0+dev'' \<rparr> =
       Inl (ImportError ''Scipy version is 0.15.1. Requires >= 0.16'')
   \<and> too_old True (script_min_versions (3, 5)) ''patsy'' ''0.3.0''
   \<and> check_dependency_versions True (script_min_versions (3, 5))
        \<lparr> numpy_short_version = Some ''1.15.0'',
          scipy_version_module = None,
          pandas_version = Some ''0.17.1'',
          patsy_version = Some ''0.3.0+dev'' \<rparr> =
       Inl (ImportError ''Patsy version is 0.3.0. Requires >= 0.4'')"
proof -
  let ?mv = "script_min_versions (3, 5)"
  let ?sp = "Some \<lparr> short_version = Some ''1.1.0'', version = Inr ''1.1.0'' \<rparr>"
  let ?e1 = "\<lparr> numpy_short_version = Some ''1.15.0'', scipy_version_module = ?sp,
                pandas_version = Some ''0.17.1'', patsy_version = Some ''0.5.0+dev'' \<rparr>"
  let ?e1' = "\<lparr> numpy_short_version = None, scipy_version_module = None,
                pandas_version = Some ''0.17.1'', patsy_version = Some ''0.5.0+dev'' \<rparr>"
  let ?e2 = "\<lparr> numpy_short_version = Some ''1.8.2'', scipy_version_module = ?sp,
                pandas_version = Some ''0.17.1'', patsy_version = Some ''0.5.0+dev'' \<rparr>"
  let ?e3 = "\<lparr> numpy_short_version = None,
                scipy_version_module =
                  Some \<lparr> short_version = Some ''0.15.1'', version = Inr ''0.15.1'' \<rparr>,
                pandas_version = Some ''0.17.1'', patsy_version = Some ''0.5.0+dev'' \<rparr>"
  let ?e4 = "\<lparr> numpy_short_version = Some ''1.15.0'', scipy_version_module = None,
                pandas_version = Some ''0.17.1'', patsy_version = Some ''0.3.0+dev'' \<rparr>"
  note ev = too_old_def adequate_def version_at_least_def script_min_versions_def
    loose_ge_def loose_parse_def char_class_of_def is_digit_def is_lower_def
    int_of_digits_def match_version_prefix_def min_of_def version_message_def
    numpy_installed_def scipy_installed_def pandas_installed_def patsy_installed_def
    spversion_of_def numpy_passes_def scipy_passes_def pandas_passes_def patsy_passes_def
  have pandas_old: "too_old True ?mv ''pandas'' ''0.17.1''" by (simp add: ev)
  have numpy_old: "too_old True ?mv ''numpy'' ''1.8.2''" by (simp add: ev)
  have scipy_old: "too_old True ?mv ''scipy'' ''0.15.1''" by (simp add: ev)
  have patsy_old: "too_old True ?mv ''patsy'' ''0.3.0''" by (simp add: ev)
  have mins: "min_of ?mv ''numpy'' = ''1.9.0''" "min_of ?mv ''scipy'' = ''0.16''"
    "min_of ?mv ''patsy'' = ''0.4''"
    by (simp_all add: ev)
  have inst:
    "pandas_installed ?e1 ''0.17.1''" "pandas_installed ?e1' ''0.17.1''"
    "numpy_installed ?e2 ''1.8.2''" "scipy_installed ?e3 ''0.15.1''"
    "patsy_installed ?e4 ''0.3.0''"
    by (simp_all add: ev)
  have pass:
    "numpy_passes True ?mv ?e1" "scipy_passes True ?mv ?e1" "patsy_passes True ?mv ?e1"
    "numpy_passes True ?mv ?e1'" "scipy_passes True ?mv ?e1'" "patsy_passes True ?mv ?e1'"
    "numpy_passes True ?mv ?e3"
    "numpy_passes True ?mv ?e4" "scipy_passes True ?mv ?e4" "pandas_passes True ?mv ?e4"
    by (simp_all add: ev)
  have miss: "missing_requires ?e1 = ([], [])"
    "missing_requires ?e1' = ([''numpy''], [''numpy'', ''scipy''])"
    by (simp_all add: missing_requires_def)
  have r1: "check_dependency_versions True ?mv ?e1 = Inr (missing_requires ?e1)"
    using pandas_minimum_not_enforced [of ?e1 "''0.17.1''" True ?mv] inst pandas_old pass
    by blast
  have r1': "check_dependency_versions True ?mv ?e1' = Inr (missing_requires ?e1')"
    using pandas_minimum_not_enforced [of ?e1' "''0.17.1''" True ?mv] inst pandas_old pass
    by blast
  have r2: "check_dependency_versions True ?mv ?e2 =
      Inl (ImportError (version_message ''Numpy'' ''1.8.2'' (min_of ?mv ''numpy'')))"
    using pandas_minimum_not_enforced [of ?e2 _ True ?mv "''1.8.2''"] inst numpy_old
    by blast
  have r3: "check_dependency_versions True ?mv ?e3 =
      Inl (ImportError (version_message ''Scipy'' ''0.15.1'' (min_of ?mv ''scipy'')))"
    using pandas_minimum_not_enforced [of ?e3 _ True ?mv _ "''0.15.1''"] inst pass scipy_old
    by blast
  have r4: "check_dependency_versions True ?mv ?e4 =
      Inl (ImportError (version_message ''Patsy'' ''0.3.0'' (min_of ?mv ''patsy'')))"
    using pandas_minimum_not_enforced [of ?e4 _ True ?mv _ _ "''0.3.0''"] inst pass patsy_old
    by blast
  show ?thesis
    using pandas_old numpy_old scipy_old patsy_old r1 r1' r2 r3 r4
    by (simp add: mins miss version_message_def)
qed

section \<open>Periods without observations\<close>

lemma update_step_all_missing:
  "list_all (\<lambda>ob. observed ob = None) obs \<Longrightarrow> update_step s obs = Inr s"
  by (induction obs) auto

text \<open>
  C4. At every period at which every observation is marked missing the update is skipped:
  the filtered state is the predicted state and the filtered covariance is the predicted
  covariance of that period, \<open>a_{t|t} = a_t\<close> and \<open>P_{t|t} = P_t\<close>.
\<close>

theorem all_missing_filtered_is_predicted:
  "kalman_filter s ps = Inr outs \<Longrightarrow> t < length ps \<Longrightarrow> all_missing (ps ! t) \<Longrightarrow>
     filtered_state (outs ! t) = predicted_state (outs ! t) \<and>
     filtered_cov (outs ! t) = predicted_cov (outs ! t)"
proof (induction ps arbitrary: s outs t)
  case Nil
  then show ?case by simp
next
  case (Cons p ps)
  from Cons.prems(1) obtain s' outs' where
    upd: "update_step s (observations p) = Inr s'" and
    rest: "kalman_filter (predict p s') ps = Inr outs'" and
    outs: "outs = \<lparr> predicted_state = fst s, predicted_cov = snd s,
                     filtered_state = fst s', filtered_cov = snd s' \<rparr> # outs'"
    by (auto split: sum.splits)
  show ?case
  proof (cases t)
    case 0
    with Cons.prems(3) have "update_step s (observations p) = Inr s"
      by (simp add: all_missing_def update_step_all_missing)
    with upd have "s' = s" by simp
    with outs 0 show ?thesis by simp
  next
    case (Suc k)
    with Cons.prems(2,3) have "k < length ps" "all_missing (ps ! k)" by simp_all
    from Cons.IH[OF rest this] outs Suc show ?thesis by simp
  qed
qed

theorem all_missing_filtered_is_predicted_witness:
  "kalman_filter ([0], [[1]]) [local_level 1 1 (Some 1), local_level 1 1 None] =
     Inr [\<lparr> predicted_state = [0], predicted_cov = [[1]],
            filtered_state = [1 / 2], filtered_cov = [[1 / 2]] \<rparr>,
          \<lparr> predicted_state = [1 / 2], predicted_cov = [[3 / 2]],
            filtered_state = [1 / 2], filtered_cov = [[3 / 2]] \<rparr>]
   \<and> (1::nat) < length [local_level 1 1 (Some 1), local_level 1 1 None]
   \<and> all_missing ([local_level 1 1 (Some 1), local_level 1 1 None] ! 1)
   \<and> filtered_state
        ([\<lparr> predicted_state = [0], predicted_cov = [[1]],
            filtered_state = [1 / 2], filtered_cov = [[1 / 2]] \<rparr>,
          \<lparr> predicted_state = [1 / 2], predicted_cov = [[3 / 2]],
            filtered_state = [1 / 2], filtered_cov = [[3 / 2]] \<rparr>] ! 1) = [1 / 2]
   \<and> filtered_cov
        ([\<lparr> predicted_state = [0], predicted_cov = [[1]],
            filtered_state = [1 / 2], filtered_cov = [[1 / 2]] \<rparr>,
          \<lparr> predicted_state = [1 / 2], predicted_cov = [[3 / 2]],
            filtered_state = [1 / 2], filtered_cov = [[3 / 2]] \<rparr>] ! 1) = [[3 / 2]]"
proof -
  let ?ps = "[local_level 1 1 (Some 1), local_level 1 1 None]"
  let ?outs = "[\<lparr> predicted_state = [0], predicted_cov = [[1]],
                  filtered_state = [1 / 2], filtered_cov = [[1 / 2]] \<rparr>,
                \<lparr> predicted_state = [1 / 2], predicted_cov = [[3 / 2]],
                  filtered_state = [1 / 2 :: real], filtered_cov = [[3 / 2 :: real]] \<rparr>]"
  have run: "kalman_filter ([0], [[1]]) ?ps = Inr ?outs"
    by (simp add: local_level_def predict_def dot_def mat_vec_def vec_add_def scale_def
        mat_add_def mat_sub_def outer_def mat_mul_def Let_def)
  have len: "(1::nat) < length ?ps" by simp
  have miss: "all_missing (?ps ! 1)"
    by (simp add: all_missing_def local_level_def)
  from all_missing_filtered_is_predicted[OF run len miss] run len miss
  show ?thesis by simp
qed

end
